theory Spec2Isabelle
  imports Main "HOL-Library.AList"
begin

section \<open>Python strings\<close>

text \<open>
  A Python \<open>str\<close> is a sequence of Unicode code points, so it is modelled as a list of
  natural numbers: \<open>len\<close> is \<open>length\<close>, slicing is \<open>take\<close>/\<open>drop\<close>, and the two arrow
  glyphs of the server's messages are the single code points 8594 (rightwards arrow) and
  8592 (leftwards arrow). \<open>lit\<close> turns an ASCII literal into its code points.

  \<open>str.lower\<close>, \<open>str.isalnum\<close> and \<open>str.isdigit\<close> follow Python on the ASCII range;
  a code point above 127 is left unchanged by \<open>py_lower\<close> and is neither alphanumeric
  nor a digit (Python decides those from the Unicode database).
\<close>

type_synonym str = "nat list"

definition lit :: "string \<Rightarrow> str" where
  "lit cs = map of_char cs"

definition crlf :: str where
  "crlf = [13, 10]"

definition arrow_right :: nat where
  "arrow_right = 8594"

definition arrow_left :: nat where
  "arrow_left = 8592"

definition py_isspace :: "nat \<Rightarrow> bool" where
  "py_isspace c \<longleftrightarrow>
     (9 \<le> c \<and> c \<le> 13) \<or> (28 \<le> c \<and> c \<le> 32) \<or> c = 133 \<or> c = 160 \<or> c = 5760 \<or>
     (8192 \<le> c \<and> c \<le> 8202) \<or> c = 8232 \<or> c = 8233 \<or> c = 8239 \<or> c = 8287 \<or> c = 12288"

definition py_strip :: "str \<Rightarrow> str" where
  "py_strip t = rev (dropWhile py_isspace (rev (dropWhile py_isspace t)))"

text \<open>\<open>t.split()\<close>: the maximal runs of non-whitespace, \<open>cur\<close> being the run read so far.\<close>

fun split_ws :: "str \<Rightarrow> str \<Rightarrow> str list" where
  "split_ws cur [] = (if cur = [] then [] else [cur])"
| "split_ws cur (c # cs) =
     (if py_isspace c then (if cur = [] then split_ws [] cs else cur # split_ws [] cs)
      else split_ws (cur @ [c]) cs)"

definition py_split :: "str \<Rightarrow> str list" where
  "py_split t = split_ws [] t"

text \<open>\<open>t.split(maxsplit=1)\<close>: the first run, then the rest from its first non-whitespace
  character on (kept as it is, trailing whitespace included) when there is one.\<close>

definition py_split_max1 :: "str \<Rightarrow> str list" where
  "py_split_max1 t =
     (let t1 = dropWhile py_isspace t in
      if t1 = [] then []
      else
        let tok = takeWhile (\<lambda>c. \<not> py_isspace c) t1;
            rest = dropWhile py_isspace (dropWhile (\<lambda>c. \<not> py_isspace c) t1)
        in if rest = [] then [tok] else [tok, rest])"

definition lower_char :: "nat \<Rightarrow> nat" where
  "lower_char c = (if 65 \<le> c \<and> c \<le> 90 then c + 32 else c)"

definition py_lower :: "str \<Rightarrow> str" where
  "py_lower t = map lower_char t"

definition is_digit :: "nat \<Rightarrow> bool" where
  "is_digit c \<longleftrightarrow> 48 \<le> c \<and> c \<le> 57"

definition is_alnum :: "nat \<Rightarrow> bool" where
  "is_alnum c \<longleftrightarrow> is_digit c \<or> (65 \<le> c \<and> c \<le> 90) \<or> (97 \<le> c \<and> c \<le> 122)"

definition py_isalnum :: "str \<Rightarrow> bool" where
  "py_isalnum t \<longleftrightarrow> t \<noteq> [] \<and> list_all is_alnum t"

definition py_isdigit :: "str \<Rightarrow> bool" where
  "py_isdigit t \<longleftrightarrow> t \<noteq> [] \<and> list_all is_digit t"

text \<open>\<open>int(t)\<close> on a string of decimal digits, surrounding whitespace ignored. The source
  calls it only after \<open>t.strip().isdigit()\<close>.\<close>

definition py_int :: "str \<Rightarrow> nat" where
  "py_int t = foldl (\<lambda>a c. 10 * a + (c - 48)) 0 (py_strip t)"

text \<open>\<open>str(n)\<close> of a non-negative integer, as an f-string prints it.\<close>

function py_str :: "nat \<Rightarrow> str" where
  "py_str n = (if n < 10 then [48 + n] else py_str (n div 10) @ [48 + n mod 10])"
  by pat_completeness auto
termination
  by (relation "measure (\<lambda>n. n)") auto

text \<open>\<open>t.replace(old, new)\<close> where \<open>old\<close> is one character, which is so at every call of
  the source.\<close>

definition py_replace :: "str \<Rightarrow> nat \<Rightarrow> str \<Rightarrow> str" where
  "py_replace t old new = concat (map (\<lambda>c. if c = old then new else [c]) t)"

definition startswith_slash :: "str \<Rightarrow> bool" where
  "startswith_slash t \<longleftrightarrow> (case t of [] \<Rightarrow> False | c # _ \<Rightarrow> c = 47)"

section \<open>Configuration\<close>

definition MOTD :: "str list" where
  "MOTD =
     [lit ''=============================='',
      lit ''  Welcome to Simple Chat     '',
      lit ''  /help    '' @ [arrow_right] @ lit '' commands        '',
      lit ''  /color on/off '' @ [arrow_right] @ lit '' toggle ansi'',
      lit ''=============================='']"

definition COLOR_reset :: str where
  "COLOR_reset = [27] @ lit ''[0m''"

definition COLOR_green :: str where
  "COLOR_green = [27] @ lit ''[32m''"

definition COLOR_yellow :: str where
  "COLOR_yellow = [27] @ lit ''[33m''"

definition COLOR_purple :: str where
  "COLOR_purple = [27] @ lit ''[35m''"

definition COLOR_cyan :: str where
  "COLOR_cyan = [27] @ lit ''[36m''"

section \<open>State\<close>

text \<open>
  A \<open>User\<close> object is named by its identity \<open>uid\<close>; its \<open>writer\<close> has the same name.
  \<open>objs\<close> is the store of User objects, \<open>users\<close> is \<open>chat_server.users\<close>, a dict in
  insertion order from the lowercased nick to a User object. \<open>sessions\<close> lists the clients
  whose \<open>handle_client\<close> is running, \<open>broken\<close> the writers whose \<open>write\<close> or \<open>drain\<close> raises,
  \<open>out\<close> every text a writer accepted (before \<open>encode\<close>), in order, and \<open>db\<close> the rows of
  the \<open>messages\<close> table by ascending \<open>id\<close>.
\<close>

type_synonym uid = nat

record user =
  nick :: str
  colors_enabled :: bool

record row =
  from_nick :: str
  to_nick :: "str option"
  message :: str
  timestamp :: str

record state =
  users :: "(str \<times> uid) list"
  objs :: "uid \<Rightarrow> user"
  fresh :: uid
  sessions :: "uid list"
  broken :: "uid set"
  out :: "(uid \<times> str) list"
  db :: "row list"

text \<open>What the two clocks read while one line is handled: \<open>strftime_HM\<close> is
  \<open>datetime.datetime.now().strftime("%H:%M")\<close>, \<open>CURRENT_TIMESTAMP\<close> the default of the
  table's \<open>timestamp\<close> column.\<close>

record clock =
  strftime_HM :: str
  CURRENT_TIMESTAMP :: str

datatype error = IndexError

definition in_users :: "str \<Rightarrow> state \<Rightarrow> bool" where
  "in_users k s \<longleftrightarrow> map_of (users s) k \<noteq> None"

section \<open>ChatServer\<close>

text \<open>\<open>writer.write(...)\<close> followed by \<open>await writer.drain()\<close> inside \<open>try ... except: pass\<close>:
  a writer that raises takes nothing, and the exception goes no further.\<close>

definition writer_write :: "uid \<Rightarrow> str \<Rightarrow> state \<Rightarrow> state" where
  "writer_write w data s = (if w \<in> broken s then s else s\<lparr>out := out s @ [(w, data)]\<rparr>)"

definition apply_color :: "user \<Rightarrow> str \<Rightarrow> str" where
  "apply_color usr txt =
     (if \<not> colors_enabled usr then txt
      else
        py_replace
          (py_replace
            (py_replace
              (py_replace
                (py_replace
                  (py_replace txt 60 (COLOR_green @ [60]))
                  62 ([62] @ COLOR_reset))
                91 (COLOR_yellow @ [91]))
              93 ([93] @ COLOR_reset))
            arrow_right (COLOR_cyan @ [arrow_right] @ COLOR_reset))
          arrow_left (COLOR_purple @ [arrow_left] @ COLOR_reset))"

text \<open>The loop of \<open>broadcast\<close> over \<open>list(self.users.items())\<close>. \<open>skips\<close> is its test
  \<open>skip_nick and nick_lower == skip_nick.lower()\<close>: \<open>skip_nick\<close> is \<open>None\<close> or a string, and
  the empty string is as false as \<open>None\<close>.\<close>

definition skips :: "str option \<Rightarrow> str \<Rightarrow> bool" where
  "skips skip_nick nick_lower \<longleftrightarrow>
     (case skip_nick of None \<Rightarrow> False | Some sn \<Rightarrow> sn \<noteq> [] \<and> nick_lower = py_lower sn)"

fun broadcast_loop :: "(str \<times> uid) list \<Rightarrow> str \<Rightarrow> str option \<Rightarrow> state \<Rightarrow> state" where
  "broadcast_loop [] txt skip_nick s = s"
| "broadcast_loop ((nick_lower, u) # rest) txt skip_nick s =
     (if skips skip_nick nick_lower
      then broadcast_loop rest txt skip_nick s
      else broadcast_loop rest txt skip_nick
             (writer_write u (apply_color (objs s u) txt @ crlf) s))"

definition broadcast :: "str \<Rightarrow> str option \<Rightarrow> state \<Rightarrow> state" where
  "broadcast txt skip_nick s = broadcast_loop (users s) txt skip_nick s"

text \<open>A Python value a function returns: \<open>send_to\<close> has no \<open>return\<close> statement.\<close>

datatype pyval = PyNone | PyBool bool

definition send_to :: "str \<Rightarrow> str \<Rightarrow> state \<Rightarrow> pyval \<times> state" where
  "send_to nck txt s =
     (let nick_lower = py_lower nck in
      case map_of (users s) nick_lower of
        None \<Rightarrow> (PyNone, s)
      | Some u \<Rightarrow> (PyNone, writer_write u (apply_color (objs s u) txt @ crlf) s))"

section \<open>Helpers\<close>

definition send_msg :: "uid \<Rightarrow> str \<Rightarrow> state \<Rightarrow> state" where
  "send_msg w txt s = writer_write w (lit '':'' @ txt @ crlf) s"

fun send_lines :: "uid \<Rightarrow> str list \<Rightarrow> state \<Rightarrow> state" where
  "send_lines w [] s = s"
| "send_lines w (l # ls) s = send_lines w ls (send_msg w l s)"

section \<open>Commands\<close>

definition help_lines :: "str list" where
  "help_lines =
     [lit ''/nick <name>          '' @ [arrow_right] @ lit '' change nickname'',
      lit ''/msg <nick> <text>    '' @ [arrow_right] @ lit '' send private message'',
      lit ''/dm <nick> <text>     '' @ [arrow_right] @ lit '' same as /msg'',
      lit ''/history [n]          '' @ [arrow_right] @ lit '' show last n messages (default 10)'',
      lit ''/color on / off       '' @ [arrow_right] @ lit '' toggle colored output'',
      lit ''/quit                 '' @ [arrow_right] @ lit '' disconnect'']"

text \<open>The test of the \<open>nick\<close> branch that sends "Nick can contain letters, numbers, _, -":
  \<open>not newnick.isalnum() and "_" not in newnick and "-" not in newnick\<close>.\<close>

definition nick_refused :: "str \<Rightarrow> bool" where
  "nick_refused newnick \<longleftrightarrow> \<not> py_isalnum newnick \<and> 95 \<notin> set newnick \<and> 45 \<notin> set newnick"

text \<open>The \<open>nick\<close> branch of \<open>handle_command\<close> (lines 118-137).\<close>

definition command_nick :: "uid \<Rightarrow> str \<Rightarrow> state \<Rightarrow> error + state" where
  "command_nick u args s =
     (if args = [] then Inr (send_msg u (lit ''Usage: /nick NewName'') s)
      else
        case py_split args of
          [] \<Rightarrow> Inl IndexError
        | tok # _ \<Rightarrow>
            let newnick = take 24 tok in
            if nick_refused newnick
            then Inr (send_msg u (lit ''Nick can contain letters, numbers, _, -'') s)
            else
              let new_lower = py_lower newnick in
              if in_users new_lower s \<and> new_lower \<noteq> py_lower (nick (objs s u))
              then Inr (send_msg u (lit ''Nickname already in use'') s)
              else
                let old = nick (objs s u);
                    s1 = s\<lparr>users := AList.delete (py_lower old) (users s)\<rparr>;
                    s2 = s1\<lparr>objs := (objs s1)(u := (objs s1 u)\<lparr>nick := newnick\<rparr>)\<rparr>;
                    s3 = s2\<lparr>users := AList.update new_lower u (users s2)\<rparr>;
                    s4 = broadcast (lit ''* '' @ old @ lit '' is now known as '' @ newnick) None s3
                in Inr (send_msg u (lit ''You are now '' @ newnick) s4))"

text \<open>The \<open>msg\<close>/\<open>dm\<close> branch (lines 139-159).\<close>

definition command_msg :: "clock \<Rightarrow> uid \<Rightarrow> str \<Rightarrow> state \<Rightarrow> state" where
  "command_msg clk u args s =
     (if args = [] \<or> 32 \<notin> set args
      then send_msg u (lit ''Usage: /msg nickname message here'') s
      else
        let target = takeWhile (\<lambda>c. c \<noteq> 32) args;
            msg = drop 1 (dropWhile (\<lambda>c. c \<noteq> 32) args);
            target_lower = py_lower target
        in
          if target_lower = py_lower (nick (objs s u))
          then send_msg u (lit ''Can't message yourself'') s
          else if \<not> in_users target_lower s
          then send_msg u (target @ lit '' is not online'') s
          else
            let ts = strftime_HM clk;
                s1 = send_msg u
                       (lit ''['' @ ts @ lit ''] '' @ [arrow_right] @ lit '' '' @ target @ lit '' '' @ msg) s;
                s2 = snd (send_to target
                       (lit ''['' @ ts @ lit ''] '' @ [arrow_left] @ lit '' '' @ nick (objs s1 u) @ lit '' '' @ msg) s1)
            in s2\<lparr>db := db s2 @
                 [\<lparr>from_nick = nick (objs s2 u), to_nick = Some target, message = msg,
                   timestamp = CURRENT_TIMESTAMP clk\<rparr>]\<rparr>)"

text \<open>The \<open>history\<close> branch (lines 161-194). \<open>history_limit\<close> is the \<open>try\<close> block: where
  \<open>int\<close> would raise (digits outside ASCII), the \<open>except\<close> gives 10, which is also what the
  \<open>else 10\<close> of the expression gives.\<close>

definition history_limit :: "str \<Rightarrow> nat" where
  "history_limit args = min (if py_isdigit (py_strip args) then py_int args else 10) 300"

text \<open>\<open>ORDER BY id DESC LIMIT ?\<close>, then \<open>fetchall()[::-1]\<close>.\<close>

definition select_last :: "(row \<Rightarrow> bool) \<Rightarrow> nat \<Rightarrow> row list \<Rightarrow> row list" where
  "select_last wh limit rows = rev (take limit (rev (filter wh rows)))"

definition dm_line :: "str \<Rightarrow> row \<Rightarrow> str" where
  "dm_line me r =
     (let t = take 5 (drop 11 (timestamp r));
          arrow = (if from_nick r = me then arrow_right else arrow_left);
          who = (if from_nick r = me
                 then (case to_nick r of None \<Rightarrow> lit ''None'' | Some t \<Rightarrow> t)
                 else from_nick r)
      in lit ''['' @ t @ lit ''] '' @ [arrow] @ lit '' '' @ who @ lit '' '' @ message r)"

definition public_line :: "row \<Rightarrow> str" where
  "public_line r =
     lit ''['' @ take 5 (drop 11 (timestamp r)) @ lit ''] <'' @ from_nick r @ lit ''> '' @ message r"

definition history_dm :: "uid \<Rightarrow> nat \<Rightarrow> state \<Rightarrow> state" where
  "history_dm u limit s =
     (let me = nick (objs s u);
          rows = select_last (\<lambda>r. from_nick r = me \<or> to_nick r = Some me) limit (db s);
          s1 = send_msg u (lit ''Recent private messages ('' @ py_str (length rows) @ lit ''):'') s
      in send_lines u (map (dm_line me) rows) s1)"

definition history_public :: "uid \<Rightarrow> nat \<Rightarrow> state \<Rightarrow> state" where
  "history_public u limit s =
     (let rows = select_last (\<lambda>r. to_nick r = None) limit (db s);
          s1 = send_msg u (lit ''Recent public messages ('' @ py_str (length rows) @ lit ''):'') s
      in send_lines u (map public_line rows) s1)"

definition command_history :: "uid \<Rightarrow> str \<Rightarrow> state \<Rightarrow> error + state" where
  "command_history u args s =
     (let limit = history_limit args in
      if 32 \<in> set args
      then
        (case py_split args of
           _ # t1 # _ \<Rightarrow>
             if py_lower t1 = lit ''dm'' then Inr (history_dm u limit s)
             else Inr (history_public u limit s)
         | _ \<Rightarrow> Inl IndexError)
      else Inr (history_public u limit s))"

text \<open>The \<open>color\<close> branch (lines 196-204).\<close>

definition command_color :: "uid \<Rightarrow> str \<Rightarrow> state \<Rightarrow> state" where
  "command_color u args s =
     (if py_lower args = lit ''on''
      then send_msg u (lit ''Colored output '' @ [arrow_right] @ lit '' enabled'')
             (s\<lparr>objs := (objs s)(u := (objs s u)\<lparr>colors_enabled := True\<rparr>)\<rparr>)
      else if py_lower args = lit ''off''
      then send_msg u (lit ''Colored output '' @ [arrow_right] @ lit '' disabled'')
             (s\<lparr>objs := (objs s)(u := (objs s u)\<lparr>colors_enabled := False\<rparr>)\<rparr>)
      else send_msg u
             (lit ''Current: '' @ (if colors_enabled (objs s u) then lit ''on'' else lit ''off'') @
              lit ''   Usage: /color on|off'') s)"

text \<open>\<open>cmd\<close> and \<open>args\<close> of a line (lines 101-103); \<open>parts[0]\<close> raises on a blank line.\<close>

definition parse_command :: "str \<Rightarrow> error + (str \<times> str)" where
  "parse_command line =
     (case py_split_max1 (py_strip line) of
        [] \<Rightarrow> Inl IndexError
      | p0 # ps \<Rightarrow>
          Inr (if startswith_slash p0 then drop 1 (py_lower p0) else [],
               case ps of [] \<Rightarrow> [] | p1 # _ \<Rightarrow> p1))"

definition handle_command :: "clock \<Rightarrow> uid \<Rightarrow> str \<Rightarrow> state \<Rightarrow> error + state" where
  "handle_command clk u line s =
     (case parse_command line of
        Inl e \<Rightarrow> Inl e
      | Inr (cmd, args) \<Rightarrow>
          if cmd = lit ''help'' then Inr (send_lines u help_lines s)
          else if cmd = lit ''nick'' then command_nick u args s
          else if cmd = lit ''msg'' \<or> cmd = lit ''dm'' then Inr (command_msg clk u args s)
          else if cmd = lit ''history'' then command_history u args s
          else if cmd = lit ''color'' then Inr (command_color u args s)
          else Inr s)"

section \<open>Client handler\<close>

text \<open>The start of \<open>handle_client\<close> (lines 224-233): a new User named "Guest" is stored under
  its lowercased nick, greeted, and announced.\<close>

definition client_connect :: "state \<Rightarrow> state" where
  "client_connect s =
     (let u = fresh s;
          s0 = s\<lparr>fresh := Suc u,
                 objs := (objs s)(u := \<lparr>nick = lit ''Guest'', colors_enabled = False\<rparr>),
                 sessions := sessions s @ [u]\<rparr>;
          s1 = s0\<lparr>users := AList.update (py_lower (nick (objs s0 u))) u (users s0)\<rparr>;
          s2 = send_lines u
                 ((lit '':server 001 '' @ nick (objs s1 u) @ lit '' :Welcome!'') # MOTD) s1
      in broadcast (lit ''* '' @ nick (objs s2 u) @ lit '' has joined the chat'') None s2)"

text \<open>The body of the loop over the lines of one read (lines 242-265).\<close>

definition client_line :: "clock \<Rightarrow> uid \<Rightarrow> str \<Rightarrow> state \<Rightarrow> error + state" where
  "client_line clk u raw s =
     (let line = py_strip raw in
      if line = [] then Inr s
      else if startswith_slash line then handle_command clk u line s
      else if length line > 400
      then Inr (send_msg u (lit ''Message too long (max ~400 chars)'') s)
      else
        let ts = strftime_HM clk;
            msg_line = lit ''['' @ ts @ lit ''] <'' @ nick (objs s u) @ lit ''> '' @ line;
            s1 = broadcast msg_line (Some (nick (objs s u))) s
        in Inr (s1\<lparr>db := db s1 @
                  [\<lparr>from_nick = nick (objs s1 u), to_nick = None, message = line,
                    timestamp = CURRENT_TIMESTAMP clk\<rparr>]\<rparr>))"

text \<open>The \<open>finally\<close> block (lines 270-275); a closed writer takes nothing any more.\<close>

definition client_finally :: "uid \<Rightarrow> state \<Rightarrow> state" where
  "client_finally u s =
     (let nick_lower = py_lower (nick (objs s u));
          s1 = (if in_users nick_lower s
                then s\<lparr>users := AList.delete nick_lower (users s)\<rparr> else s);
          s2 = broadcast (lit ''* '' @ nick (objs s1 u) @ lit '' has left'') None s1
      in s2\<lparr>sessions := removeAll u (sessions s2), broken := insert u (broken s2)\<rparr>)"

text \<open>What happens to the server: a client connects, a connected client's handler reads a
  line, or its read ends. An exception of the loop body ends the handler through
  \<open>finally\<close>, as the end of the stream does; \<open>handle_command\<close> raises, if at all, before it
  has changed or written anything, so \<open>finally\<close> starts from the state before the line.\<close>

datatype event = Connect | Recv uid clock str | Eof uid

fun step :: "state \<Rightarrow> event \<Rightarrow> state" where
  "step s Connect = client_connect s"
| "step s (Recv u clk raw) =
     (if u \<in> set (sessions s)
      then (case client_line clk u raw s of Inl e \<Rightarrow> client_finally u s | Inr s' \<Rightarrow> s')
      else s)"
| "step s (Eof u) = (if u \<in> set (sessions s) then client_finally u s else s)"

definition run :: "state \<Rightarrow> event list \<Rightarrow> state" where
  "run s es = foldl step s es"

text \<open>The server as \<open>main\<close> starts it: nobody connected, an empty table; \<open>B\<close> are the
  writers that will raise.\<close>

definition init :: "uid set \<Rightarrow> state" where
  "init B =
     \<lparr>users = [], objs = (\<lambda>_. \<lparr>nick = lit ''Guest'', colors_enabled = False\<rparr>), fresh = 0,
      sessions = [], broken = B, out = [], db = []\<rparr>"

text \<open>What the registry is meant to satisfy, as far as the code keeps it: every entry
  stands under the lowercase nick of its User, which is not empty, and belongs to a
  running handler; no key occurs twice; and every running handler's User was allocated.\<close>

definition registry_ok :: "state \<Rightarrow> bool" where
  "registry_ok s \<longleftrightarrow>
     list_all (\<lambda>(k, u). k = py_lower (nick (objs s u)) \<and> k \<noteq> [] \<and> u \<in> set (sessions s))
       (users s) \<and>
     distinct (map fst (users s)) \<and>
     list_all (\<lambda>u. u < fresh s) (sessions s)"

text \<open>A reading of the clocks for the examples.\<close>

definition noon :: clock where
  "noon = \<lparr>strftime_HM = lit ''12:00'', CURRENT_TIMESTAMP = lit ''2024-01-02 12:00:00''\<rparr>"

section \<open>What a write leaves behind\<close>

text \<open>Every sending function changes the \<open>out\<close> field only, by appending to it.\<close>

lemma lit_simps:
  "lit [] = []" "lit (c # cs) = of_char c # lit cs"
  by (simp_all add: lit_def)

lemma writer_write_eq:
  "writer_write w d s = s\<lparr>out := out s @ (if w \<in> broken s then [] else [(w, d)])\<rparr>"
  by (simp add: writer_write_def)

lemma send_msg_eq:
  "send_msg w t s = s\<lparr>out := out s @ (if w \<in> broken s then [] else [(w, lit '':'' @ t @ crlf)])\<rparr>"
  by (simp add: send_msg_def writer_write_eq)

lemma send_lines_eq:
  "send_lines w ls s =
     s\<lparr>out := out s @ (if w \<in> broken s then [] else map (\<lambda>l. (w, lit '':'' @ l @ crlf)) ls)\<rparr>"
  by (induction ls arbitrary: s) (simp_all add: send_msg_eq)

lemma broadcast_loop_eq:
  "broadcast_loop es txt sk s =
     s\<lparr>out := out s @
        map (\<lambda>(k, u). (u, apply_color (objs s u) txt @ crlf))
          (filter (\<lambda>(k, u). \<not> skips sk k \<and> u \<notin> broken s) es)\<rparr>"
proof (induction es arbitrary: s)
  case Nil
  show ?case by simp
next
  case (Cons e es)
  obtain k u where e: "e = (k, u)" by (cases e)
  show ?case
    unfolding e by (simp add: Cons.IH writer_write_eq)
qed

lemma broadcast_eq:
  "broadcast txt sk s =
     s\<lparr>out := out s @
        map (\<lambda>(k, u). (u, apply_color (objs s u) txt @ crlf))
          (filter (\<lambda>(k, u). \<not> skips sk k \<and> u \<notin> broken s) (users s))\<rparr>"
  by (simp add: broadcast_def broadcast_loop_eq)

lemma send_to_eq:
  "send_to n t s =
     (PyNone,
      case map_of (users s) (py_lower n) of
        None \<Rightarrow> s
      | Some u \<Rightarrow>
          s\<lparr>out := out s @ (if u \<in> broken s then [] else [(u, apply_color (objs s u) t @ crlf)])\<rparr>)"
  by (simp add: send_to_def writer_write_eq split: option.splits)

section \<open>Delivery\<close>

text \<open>
  Claim C3. \<open>broadcast\<close> with a skip nick \<open>A\<close> changes nothing but \<open>out\<close>: the registry is as
  before, and the texts appended are the rendered message, one for every entry of the
  registry, in its order, whose key is not the lowercased \<open>A\<close> and whose writer does not
  raise. Nothing goes to the entry under the key of \<open>A\<close>; an entry whose writer raises
  receives nothing, stays in the registry, and the entries after it are served all the same.
  \<open>broadcast\<close> is total, so the call itself never fails. The source takes an empty \<open>A\<close> for
  no skip at all, which makes no difference as long as no entry stands under the empty key;
  no reachable state has such an entry (\<open>registry_ok_no_empty_key\<close> below).
\<close>

theorem broadcast_skips_key:
  assumes "A \<noteq> [] \<or> \<not> in_users [] s"
  shows "broadcast txt (Some A) s =
     s\<lparr>out := out s @
        map (\<lambda>(k, u). (u, apply_color (objs s u) txt @ crlf))
          (filter (\<lambda>(k, u). k \<noteq> py_lower A \<and> u \<notin> broken s) (users s))\<rparr>"
proof (cases "A = []")
  case False
  then show ?thesis by (simp add: broadcast_eq skips_def)
next
  case True
  with assms have "[] \<notin> fst ` set (users s)"
    by (simp add: in_users_def map_of_eq_None_iff)
  then have "filter (\<lambda>(k, u). \<not> skips (Some A) k \<and> u \<notin> broken s) (users s) =
             filter (\<lambda>(k, u). k \<noteq> py_lower A \<and> u \<notin> broken s) (users s)"
    using True by (intro filter_cong refl) (force simp add: skips_def py_lower_def)
  then show ?thesis by (simp add: broadcast_eq)
qed

text \<open>Four entries, skip nick "Bob", the writer of the third raising: the first and the
  fourth receive the text.\<close>

theorem broadcast_skips_key_witness:
  "lit ''Bob'' \<noteq> [] \<and>
   out (broadcast (lit ''hi'') (Some (lit ''Bob''))
        \<lparr>users = [(lit ''alice'', 0), (lit ''bob'', 1), (lit ''carol'', 2), (lit ''dave'', 3)],
         objs = (\<lambda>_. \<lparr>nick = lit ''Guest'', colors_enabled = False\<rparr>), fresh = 4,
         sessions = [0, 1, 2, 3], broken = {2}, out = [], db = []\<rparr>)
   = [(0, lit ''hi'' @ crlf), (3, lit ''hi'' @ crlf)]"
proof -
  have h: "lit ''Bob'' \<noteq> [] \<or> \<not> in_users []
        \<lparr>users = [(lit ''alice'', 0), (lit ''bob'', 1), (lit ''carol'', 2), (lit ''dave'', 3)],
         objs = (\<lambda>_. \<lparr>nick = lit ''Guest'', colors_enabled = False\<rparr>), fresh = 4,
         sessions = [0, 1, 2, 3], broken = {2}, out = [], db = []\<rparr>"
    by (simp add: lit_def)
  show ?thesis
    using h broadcast_skips_key [OF h]
    by (simp add: lit_def py_lower_def lower_char_def apply_color_def crlf_def)
qed




section \<open>Rendering\<close>

lemma apply_color_off: "\<not> colors_enabled usr \<Longrightarrow> apply_color usr txt = txt"
  by (simp add: apply_color_def)

lemmas color_defs = COLOR_green_def COLOR_reset_def COLOR_yellow_def COLOR_cyan_def
  COLOR_purple_def arrow_left_def arrow_right_def

text \<open>
  Claim C8 says that with colours on the six substitutions act as a set, in any order.
  The chain of \<open>replace\<close> calls in \<open>apply_color\<close> does not: the escape sequence it puts
  before "<" holds a "[", which the third call wraps again, so that a lone "<" comes out as
  ESC ESC [33m [32m <. Putting the "[" substitution before the "<" one gives
  ESC [32m <, the green marker of the \<open>COLORS\<close> table.
\<close>

theorem apply_color_rewrites_own_escapes:
  "apply_color \<lparr>nick = lit ''Guest'', colors_enabled = True\<rparr> (lit ''<'')
     = [27, 27] @ lit ''[33m[32m<'' \<and>
   py_replace (py_replace (lit ''<'') 91 (COLOR_yellow @ [91])) 60 (COLOR_green @ [60])
     = [27] @ lit ''[32m<''"
  by (simp add: apply_color_def py_replace_def color_defs lit_def)

section \<open>Running the server\<close>

lemma client_connect_fields:
  "users (client_connect s) = AList.update (lit ''guest'') (fresh s) (users s)"
  "objs (client_connect s) = (objs s)(fresh s := \<lparr>nick = lit ''Guest'', colors_enabled = False\<rparr>)"
  "sessions (client_connect s) = sessions s @ [fresh s]"
  "fresh (client_connect s) = Suc (fresh s)"
  "broken (client_connect s) = broken s"
  "db (client_connect s) = db s"
  by (simp_all add: client_connect_def Let_def send_lines_eq broadcast_eq)
     (simp_all add: lit_def py_lower_def lower_char_def)

lemma py_split_Nil: "py_split [] = []"
  by (simp add: py_split_def)

lemma command_nick_accepts:
  assumes "py_split args = tok # rest"
    and "\<not> nick_refused (take 24 tok)"
    and "\<not> (in_users (py_lower (take 24 tok)) s \<and>
            py_lower (take 24 tok) \<noteq> py_lower (nick (objs s u)))"
  shows "command_nick u args s =
     Inr (send_msg u (lit ''You are now '' @ take 24 tok)
           (broadcast (lit ''* '' @ nick (objs s u) @ lit '' is now known as '' @ take 24 tok) None
             (s\<lparr>objs := (objs s)(u := (objs s u)\<lparr>nick := take 24 tok\<rparr>),
                users := AList.update (py_lower (take 24 tok)) u
                           (AList.delete (py_lower (nick (objs s u))) (users s))\<rparr>)))"
proof -
  have "args \<noteq> []" using assms(1) by (auto simp: py_split_Nil)
  then show ?thesis
    using assms by (auto simp add: command_nick_def Let_def)
qed

lemma client_line_command:
  "py_strip raw = line \<Longrightarrow> line \<noteq> [] \<Longrightarrow> startswith_slash line \<Longrightarrow>
   client_line clk u raw s = handle_command clk u line s"
  by (simp add: client_line_def Let_def)

lemma handle_command_nick:
  "parse_command line = Inr (lit ''nick'', args) \<Longrightarrow>
   handle_command clk u line s = command_nick u args s"
  by (simp add: handle_command_def lit_def)

lemmas parse_defs = parse_command_def py_split_max1_def py_strip_def py_isspace_def
  startswith_slash_def py_lower_def lower_char_def lit_def Let_def

lemma parse_nick_bad: "parse_command (lit ''/nick a-!'') = Inr (lit ''nick'', lit ''a-!'')"
  by (simp add: parse_defs)

lemma split_bad: "py_split (lit ''a-!'') = [lit ''a-!'']"
  by (simp add: py_split_def py_isspace_def lit_def)

lemma run_simps:
  "run s [] = s" "run s (e # es) = run (step s e) es"
  by (simp_all add: run_def)

lemma step_Recv:
  "u \<in> set (sessions s) \<Longrightarrow> client_line clk u raw s = Inr s' \<Longrightarrow> step s (Recv u clk raw) = s'"
  by simp

text \<open>
  Claim C4 says that a name with a character other than a letter, a digit, "_" or "-" is
  refused. The test of the source refuses a name only when it is not alphanumeric and has
  neither "_" nor "-" in it, so "a-!" is taken: after \<open>/nick a-!\<close> the client that has just
  connected is called "a-!" and is registered under that key.
\<close>

theorem nick_with_hyphen_accepts_any_character:
  "users (run (init {}) [Connect, Recv 0 clk (lit ''/nick a-!'')]) = [(lit ''a-!'', 0)] \<and>
   nick (objs (run (init {}) [Connect, Recv 0 clk (lit ''/nick a-!'')]) 0) = lit ''a-!''"
proof -
  define s1 where "s1 = client_connect (init {})"
  have f1: "users s1 = [(lit ''guest'', 0)]" "nick (objs s1 0) = lit ''Guest''"
    "sessions s1 = [0]"
    by (simp_all add: s1_def client_connect_fields init_def)
  have ok: "\<not> nick_refused (take 24 (lit ''a-!''))"
    by (simp add: nick_refused_def lit_def)
  have free: "\<not> (in_users (py_lower (take 24 (lit ''a-!''))) s1 \<and>
     py_lower (take 24 (lit ''a-!'')) \<noteq> py_lower (nick (objs s1 0)))"
    by (simp add: in_users_def f1) (simp add: lit_def py_lower_def lower_char_def)
  have line: "py_strip (lit ''/nick a-!'') = lit ''/nick a-!''"
    by (simp add: py_strip_def py_isspace_def lit_def)
  have ne: "lit ''/nick a-!'' \<noteq> []" by (simp add: lit_def)
  have sl: "startswith_slash (lit ''/nick a-!'')" by (simp add: startswith_slash_def lit_def)
  have mem: "0 \<in> set (sessions s1)" by (simp add: f1)
  have "client_line clk 0 (lit ''/nick a-!'') s1 = command_nick 0 (lit ''a-!'') s1"
    by (simp only: client_line_command [OF line ne sl] handle_command_nick [OF parse_nick_bad])
  also note command_nick_accepts [OF split_bad ok free]
  finally have "run (init {}) [Connect, Recv 0 clk (lit ''/nick a-!'')] =
     send_msg 0 (lit ''You are now '' @ take 24 (lit ''a-!''))
           (broadcast (lit ''* '' @ nick (objs s1 0) @ lit '' is now known as '' @ take 24 (lit ''a-!'')) None
             (s1\<lparr>objs := (objs s1)(0 := (objs s1 0)\<lparr>nick := take 24 (lit ''a-!'')\<rparr>),
                users := AList.update (py_lower (take 24 (lit ''a-!''))) 0
                           (AList.delete (py_lower (nick (objs s1 0))) (users s1))\<rparr>))"
    using mem by (simp add: run_simps flip: s1_def)
  then show ?thesis
    by (simp add: send_msg_eq broadcast_eq f1)
       (simp add: lit_def py_lower_def lower_char_def)
qed

section \<open>The command interpreter\<close>

text \<open>
  Claim C9. A line whose verb (the lowercased first word without its first character) is
  none of help, nick, msg, dm, history and color falls through every branch of
  \<open>handle_command\<close>: the state that comes back is the state that went in, so nothing is
  written to any session and neither a User object nor the registry changes. "/quit",
  which the help text lists, is such a line.
\<close>

theorem unknown_verb_is_ignored:
  assumes "parse_command line = Inr (cmd, args)"
    and "cmd \<notin> set [lit ''help'', lit ''nick'', lit ''msg'', lit ''dm'', lit ''history'', lit ''color'']"
  shows "handle_command clk u line s = Inr s"
  using assms by (simp add: handle_command_def)

theorem unknown_verb_is_ignored_witness:
  "parse_command (lit ''/quit'') = Inr (lit ''quit'', []) \<and>
   lit ''quit'' \<notin> set [lit ''help'', lit ''nick'', lit ''msg'', lit ''dm'', lit ''history'', lit ''color''] \<and>
   handle_command noon 0 (lit ''/quit'') (client_connect (init {})) = Inr (client_connect (init {}))"
proof -
  have p: "parse_command (lit ''/quit'') = Inr (lit ''quit'', [])"
    by (simp add: parse_defs)
  have n: "lit ''quit'' \<notin> set [lit ''help'', lit ''nick'', lit ''msg'', lit ''dm'', lit ''history'', lit ''color'']"
    by (simp add: lit_def)
  show ?thesis
    using p n unknown_verb_is_ignored [OF p n] by simp
qed





section \<open>Chat lines\<close>

text \<open>
  Claim C7. A line that is not blank and does not start with "/" is, when it has exactly 400
  characters, sent through \<open>broadcast\<close> with the sender's nick as the skip nick (so to every
  registry entry but the one under the sender's key) and appended to the table with no
  recipient; when it has 401 characters or more, the only effect is the one length message
  to the sender (none when the sender's writer raises): nothing goes to anyone else and the
  table is as before.
\<close>

theorem chat_line_cap_400:
  assumes "py_strip raw = line" and "line \<noteq> []" and "\<not> startswith_slash line"
  shows "(length line = 400 \<longrightarrow>
            client_line clk u raw s =
              Inr (s\<lparr>out := out s @
                     map (\<lambda>(k, v). (v, apply_color (objs s v)
                            (lit ''['' @ strftime_HM clk @ lit ''] <'' @ nick (objs s u) @ lit ''> '' @ line) @ crlf))
                       (filter (\<lambda>(k, v). \<not> skips (Some (nick (objs s u))) k \<and> v \<notin> broken s) (users s)),
                     db := db s @
                      [\<lparr>from_nick = nick (objs s u), to_nick = None, message = line,
                        timestamp = CURRENT_TIMESTAMP clk\<rparr>]\<rparr>)) \<and>
         (401 \<le> length line \<longrightarrow>
            client_line clk u raw s =
              Inr (s\<lparr>out := out s @
                     (if u \<in> broken s then []
                      else [(u, lit '':Message too long (max ~400 chars)'' @ crlf)])\<rparr>))"
  using assms by (simp add: client_line_def Let_def send_msg_eq broadcast_eq lit_def)

lemma py_strip_replicate: "\<not> py_isspace c \<Longrightarrow> py_strip (replicate n c) = replicate n c"
  by (simp add: py_strip_def dropWhile_replicate)

lemma startswith_slash_replicate: "c \<noteq> 47 \<Longrightarrow> \<not> startswith_slash (replicate n c)"
  by (cases n) (simp_all add: startswith_slash_def)

text \<open>Four hundred and four hundred and one times the letter "a", on a server where nobody
  else is registered.\<close>

theorem chat_line_cap_400_witness:
  "py_strip (replicate 400 97) = replicate 400 97 \<and> replicate 400 (97::nat) \<noteq> [] \<and>
   \<not> startswith_slash (replicate 400 97) \<and> length (replicate 400 (97::nat)) = 400 \<and>
   client_line noon 0 (replicate 400 97) (init {}) =
     Inr ((init {})\<lparr>db :=
       [\<lparr>from_nick = lit ''Guest'', to_nick = None, message = replicate 400 97,
         timestamp = CURRENT_TIMESTAMP noon\<rparr>]\<rparr>) \<and>
   py_strip (replicate 401 97) = replicate 401 97 \<and> replicate 401 (97::nat) \<noteq> [] \<and>
   \<not> startswith_slash (replicate 401 97) \<and> 401 \<le> length (replicate 401 (97::nat)) \<and>
   client_line noon 0 (replicate 401 97) (init {}) =
     Inr ((init {})\<lparr>out := [(0, lit '':Message too long (max ~400 chars)'' @ crlf)]\<rparr>)"
proof -
  have sp: "\<not> py_isspace 97" by (simp add: py_isspace_def)
  have a: "py_strip (replicate 400 97) = replicate 400 97"
    using sp by (rule py_strip_replicate)
  have b: "replicate 400 (97::nat) \<noteq> []" by simp
  have c: "\<not> startswith_slash (replicate 400 97)"
    by (rule startswith_slash_replicate) simp
  have a': "py_strip (replicate 401 97) = replicate 401 97"
    using sp by (rule py_strip_replicate)
  have b': "replicate 401 (97::nat) \<noteq> []" by simp
  have c': "\<not> startswith_slash (replicate 401 97)"
    by (rule startswith_slash_replicate) simp
  show ?thesis
    using a b c a' b' c' chat_line_cap_400 [OF a b c, of noon 0 "init {}"]
      chat_line_cap_400 [OF a' b' c', of noon 0 "init {}"]
    by (simp add: init_def)
qed

section \<open>History\<close>

lemma select_last_chronological:
  "select_last wh n rows = drop (length (filter wh rows) - n) (filter wh rows)"
  by (simp add: select_last_def rev_take)

lemma select_last_length: "length (select_last wh n rows) \<le> n"
  by (simp add: select_last_def)

lemma history_limit_le: "history_limit args \<le> 300"
  by (simp add: history_limit_def)

lemma history_dm_eq:
  "history_dm u limit s =
     s\<lparr>out := out s @
       (if u \<in> broken s then []
        else map (\<lambda>l. (u, lit '':'' @ l @ crlf))
          ((lit ''Recent private messages ('' @
              py_str (length (select_last (\<lambda>r. from_nick r = nick (objs s u) \<or>
                  to_nick r = Some (nick (objs s u))) limit (db s))) @ lit ''):'') #
           map (dm_line (nick (objs s u)))
             (select_last (\<lambda>r. from_nick r = nick (objs s u) \<or>
                  to_nick r = Some (nick (objs s u))) limit (db s))))\<rparr>"
  by (simp add: history_dm_def Let_def send_msg_eq send_lines_eq)

lemma history_public_eq:
  "history_public u limit s =
     s\<lparr>out := out s @
       (if u \<in> broken s then []
        else map (\<lambda>l. (u, lit '':'' @ l @ crlf))
          ((lit ''Recent public messages ('' @
              py_str (length (select_last (\<lambda>r. to_nick r = None) limit (db s))) @ lit ''):'') #
           map public_line (select_last (\<lambda>r. to_nick r = None) limit (db s))))\<rparr>"
  by (simp add: history_public_def Let_def send_msg_eq send_lines_eq)

lemma parse_history_dm: "parse_command (lit ''/history 1 dm'') = Inr (lit ''history'', lit ''1 dm'')"
  by (simp add: parse_defs)

lemma split_1_dm: "py_split (lit ''1 dm'') = [lit ''1'', lit ''dm'']"
  by (simp add: py_split_def py_isspace_def lit_def)

lemma limit_1_dm: "history_limit (lit ''1 dm'') = 10"
  by (simp add: history_limit_def py_isdigit_def is_digit_def py_strip_def py_isspace_def lit_def)

lemma limit_1: "history_limit (lit ''1'') = 1"
  by (simp add: history_limit_def py_isdigit_def is_digit_def py_strip_def py_isspace_def py_int_def lit_def)

text \<open>
  Claim C5 says that the number given to \<open>/history\<close> is the limit in the dm mode as in the
  public mode. The limit is read from the whole argument string: "1" gives 1, but "1 dm",
  the form that selects the dm mode, is not a number and gives the default 10. A user with
  two private messages in the table who asks for \<open>/history 1 dm\<close> is sent both.
\<close>

theorem history_dm_ignores_n:
  "history_limit (lit ''1'') = 1 \<and> history_limit (lit ''1 dm'') = 10 \<and>
   handle_command clk 0 (lit ''/history 1 dm'')
     ((init {})\<lparr>db :=
        [\<lparr>from_nick = lit ''Guest'', to_nick = Some (lit ''bob''), message = lit ''one'',
          timestamp = lit ''2024-01-02 03:04:05''\<rparr>,
         \<lparr>from_nick = lit ''bob'', to_nick = Some (lit ''Guest''), message = lit ''two'',
          timestamp = lit ''2024-01-02 03:05:06''\<rparr>]\<rparr>) =
   Inr ((init {})\<lparr>db :=
        [\<lparr>from_nick = lit ''Guest'', to_nick = Some (lit ''bob''), message = lit ''one'',
          timestamp = lit ''2024-01-02 03:04:05''\<rparr>,
         \<lparr>from_nick = lit ''bob'', to_nick = Some (lit ''Guest''), message = lit ''two'',
          timestamp = lit ''2024-01-02 03:05:06''\<rparr>],
        out :=
        [(0, lit '':Recent private messages (2):'' @ crlf),
         (0, lit '':[03:04] '' @ [arrow_right] @ lit '' bob one'' @ crlf),
         (0, lit '':[03:05] '' @ [arrow_left] @ lit '' bob two'' @ crlf)]\<rparr>)"
proof -
  have hc: "\<And>s. handle_command clk 0 (lit ''/history 1 dm'') s = Inr (history_dm 0 10 s)"
    by (simp add: handle_command_def parse_history_dm command_history_def split_1_dm limit_1_dm)
       (simp add: lit_def py_lower_def lower_char_def)
  show ?thesis
    unfolding hc limit_1 limit_1_dm
    by (simp add: history_dm_eq init_def select_last_def dm_line_def)
       (simp add: lit_def)
qed

section \<open>The registry\<close>

lemma guest_lower: "py_lower (lit ''Guest'') = lit ''guest''"
  by (simp add: lit_def py_lower_def lower_char_def)

text \<open>Part of what claim C1 asks of the registry does hold in every state the server
  reaches, whatever the clients send: \<open>registry_ok\<close>. Every entry stands under the
  lowercase nick of its User and belongs to a running handler, and no key occurs twice.
  What fails is the converse, that every running handler has an entry.\<close>

lemma registry_ok_iff:
  "registry_ok s \<longleftrightarrow>
     (\<forall>k u. map_of (users s) k = Some u \<longrightarrow>
        k = py_lower (nick (objs s u)) \<and> k \<noteq> [] \<and> u \<in> set (sessions s)) \<and>
     distinct (map fst (users s)) \<and> (\<forall>u \<in> set (sessions s). u < fresh s)"
  by (auto simp add: registry_ok_def list_all_iff; blast)

lemma registry_ok_frame:
  assumes "users s' = users s" and "\<And>v. nick (objs s' v) = nick (objs s v)"
    and "sessions s' = sessions s" and "fresh s' = fresh s"
  shows "registry_ok s' = registry_ok s"
  by (simp add: registry_ok_def assms)

lemma registry_ok_init: "registry_ok (init B)"
  by (simp add: registry_ok_def init_def)

lemma registry_ok_connect:
  assumes "registry_ok s"
  shows "registry_ok (client_connect s)"
proof -
  have old: "\<And>k v. map_of (users s) k = Some v \<Longrightarrow> v \<noteq> fresh s"
    using assms by (auto simp add: registry_ok_iff)
  have g: "lit ''guest'' \<noteq> []" by (simp add: lit_def)
  show ?thesis
    using assms old g
    by (auto simp add: registry_ok_iff client_connect_fields update_conv' distinct_update
          guest_lower less_Suc_eq split: if_splits)
qed


lemma split_ws_nonempty: "list_all (\<lambda>t. t \<noteq> []) (split_ws cur cs)"
  by (induction cs arbitrary: cur) simp_all

lemma py_split_nonempty: "py_split args = tok # rest \<Longrightarrow> tok \<noteq> []"
  using split_ws_nonempty [of "[]" args] by (simp add: py_split_def)

lemma registry_ok_rename:
  assumes "registry_ok s" and "u \<in> set (sessions s)" and "new \<noteq> []"
  shows "registry_ok
     (s\<lparr>objs := (objs s)(u := (objs s u)\<lparr>nick := new\<rparr>),
        users := AList.update (py_lower new) u
                   (AList.delete (py_lower (nick (objs s u))) (users s))\<rparr>)"
proof -
  have other: "\<And>k v. map_of (users s) k = Some v \<Longrightarrow> k \<noteq> py_lower (nick (objs s u)) \<Longrightarrow> v \<noteq> u"
    using assms(1) by (auto simp add: registry_ok_iff)
  have ne: "py_lower new \<noteq> []" using assms(3) by (simp add: py_lower_def)
  show ?thesis
    using assms(1,2) other ne
    by (auto simp add: registry_ok_iff update_conv' delete_conv' distinct_update distinct_delete
          split: if_splits)
qed

lemma registry_ok_nick:
  assumes "registry_ok s" and "u \<in> set (sessions s)" and "command_nick u args s = Inr s'"
  shows "registry_ok s'"
proof (cases "py_split args")
  case Nil
  then show ?thesis
    using assms by (auto simp add: command_nick_def send_msg_eq registry_ok_def split: if_splits)
next
  case (Cons tok rest)
  have ne: "take 24 tok \<noteq> []"
    using py_split_nonempty [OF Cons] by simp
  have frame: "\<And>t. registry_ok (send_msg u t s)"
    using assms(1) by (simp add: send_msg_eq registry_ok_def)
  show ?thesis
  proof (cases "nick_refused (take 24 tok) \<or>
      (in_users (py_lower (take 24 tok)) s \<and>
       py_lower (take 24 tok) \<noteq> py_lower (nick (objs s u)))")
    case True
    then show ?thesis
      using assms(3) Cons frame
      by (auto simp add: command_nick_def Let_def split: if_splits)
  next
    case False
    then have "command_nick u args s =
       Inr (send_msg u (lit ''You are now '' @ take 24 tok)
           (broadcast (lit ''* '' @ nick (objs s u) @ lit '' is now known as '' @ take 24 tok) None
             (s\<lparr>objs := (objs s)(u := (objs s u)\<lparr>nick := take 24 tok\<rparr>),
                users := AList.update (py_lower (take 24 tok)) u
                           (AList.delete (py_lower (nick (objs s u))) (users s))\<rparr>)))"
      by (intro command_nick_accepts [OF Cons]) auto
    with assms(3) have s': "s' = send_msg u (lit ''You are now '' @ take 24 tok)
           (broadcast (lit ''* '' @ nick (objs s u) @ lit '' is now known as '' @ take 24 tok) None
             (s\<lparr>objs := (objs s)(u := (objs s u)\<lparr>nick := take 24 tok\<rparr>),
                users := AList.update (py_lower (take 24 tok)) u
                           (AList.delete (py_lower (nick (objs s u))) (users s))\<rparr>))"
      by simp
    have "registry_ok s' =
       registry_ok (s\<lparr>objs := (objs s)(u := (objs s u)\<lparr>nick := take 24 tok\<rparr>),
                users := AList.update (py_lower (take 24 tok)) u
                           (AList.delete (py_lower (nick (objs s u))) (users s))\<rparr>)"
      unfolding s' by (rule registry_ok_frame) (simp_all add: send_msg_eq broadcast_eq)
    then show ?thesis
      using registry_ok_rename [OF assms(1,2) ne] by simp
  qed
qed

lemma registry_ok_msg: "registry_ok (command_msg clk u args s) = registry_ok s"
  by (rule registry_ok_frame)
     (simp_all add: command_msg_def Let_def send_msg_eq send_to_eq split: option.splits)

lemma registry_ok_history_dm: "registry_ok (history_dm u n s) = registry_ok s"
  by (rule registry_ok_frame) (simp_all add: history_dm_eq)

lemma registry_ok_history_public: "registry_ok (history_public u n s) = registry_ok s"
  by (rule registry_ok_frame) (simp_all add: history_public_eq)

lemma registry_ok_history:
  "registry_ok s \<Longrightarrow> command_history u args s = Inr t \<Longrightarrow> registry_ok t"
  by (auto simp add: command_history_def Let_def registry_ok_history_dm registry_ok_history_public
        split: if_splits list.splits)

lemma registry_ok_color: "registry_ok (command_color u args s) = registry_ok s"
  by (rule registry_ok_frame) (simp_all add: command_color_def send_msg_eq)

lemma registry_ok_help: "registry_ok (send_lines u ls s) = registry_ok s"
  by (rule registry_ok_frame) (simp_all add: send_lines_eq)

lemma registry_ok_command:
  assumes "registry_ok s" and "u \<in> set (sessions s)" and "handle_command clk u line s = Inr s'"
  shows "registry_ok s'"
proof -
  obtain cmd args where p: "parse_command line = Inr (cmd, args)"
    using assms(3) by (cases "parse_command line") (auto simp add: handle_command_def)
  consider "cmd = lit ''help''" | "cmd = lit ''nick''" | "cmd = lit ''msg'' \<or> cmd = lit ''dm''"
    | "cmd = lit ''history''" | "cmd = lit ''color''"
    | "cmd \<notin> set [lit ''help'', lit ''nick'', lit ''msg'', lit ''dm'', lit ''history'', lit ''color'']"
    by auto
  then show ?thesis
  proof cases
    case 1
    then show ?thesis
      using assms(1,3) by (auto simp add: handle_command_def p registry_ok_help)
  next
    case 2
    then have "command_nick u args s = Inr s'"
      using assms(3) by (simp add: handle_command_def p lit_def)
    then show ?thesis by (rule registry_ok_nick [OF assms(1,2)])
  next
    case 3
    then have "s' = command_msg clk u args s"
      using assms(3) by (auto simp add: handle_command_def p lit_def)
    then show ?thesis by (simp add: registry_ok_msg assms(1))
  next
    case 4
    then have "command_history u args s = Inr s'"
      using assms(3) by (simp add: handle_command_def p lit_def)
    then show ?thesis by (rule registry_ok_history [OF assms(1)])
  next
    case 5
    then have "s' = command_color u args s"
      using assms(3) by (simp add: handle_command_def p lit_def)
    then show ?thesis by (simp add: registry_ok_color assms(1))
  next
    case 6
    then have "s' = s"
      using assms(3) by (simp add: handle_command_def p)
    then show ?thesis by (simp add: assms(1))
  qed
qed

lemma registry_ok_line:
  assumes "registry_ok s" and "u \<in> set (sessions s)" and "client_line clk u raw s = Inr s'"
  shows "registry_ok s'"
proof -
  have long: "registry_ok (send_msg u t s) = registry_ok s" for t
    by (rule registry_ok_frame) (simp_all add: send_msg_eq)
  have chat: "registry_ok ((broadcast t sk s)\<lparr>db := d\<rparr>) = registry_ok s" for t sk d
    by (rule registry_ok_frame) (simp_all add: broadcast_eq)
  consider "py_strip raw = []"
    | "py_strip raw \<noteq> []" "startswith_slash (py_strip raw)"
    | "py_strip raw \<noteq> []" "\<not> startswith_slash (py_strip raw)" "length (py_strip raw) > 400"
    | "py_strip raw \<noteq> []" "\<not> startswith_slash (py_strip raw)" "\<not> length (py_strip raw) > 400"
    by blast
  then show ?thesis
  proof cases
    case 1
    then show ?thesis using assms(1,3) by (simp add: client_line_def)
  next
    case 2
    then have "handle_command clk u (py_strip raw) s = Inr s'"
      using assms(3) by (simp add: client_line_def Let_def)
    then show ?thesis by (rule registry_ok_command [OF assms(1,2)])
  next
    case 3
    then show ?thesis using assms(1,3) by (auto simp add: client_line_def Let_def long)
  next
    case 4
    then show ?thesis using assms(1,3) by (auto simp add: client_line_def Let_def chat)
  qed
qed

lemma client_finally_fields:
  "users (client_finally u s) = AList.delete (py_lower (nick (objs s u))) (users s)"
  "objs (client_finally u s) = objs s"
  "sessions (client_finally u s) = removeAll u (sessions s)"
  "fresh (client_finally u s) = fresh s"
  "db (client_finally u s) = db s"
  by (simp_all add: client_finally_def Let_def broadcast_eq in_users_def map_of_eq_None_iff)

lemma registry_ok_finally:
  assumes "registry_ok s"
  shows "registry_ok (client_finally u s)"
proof -
  have own: "\<And>k. map_of (users s) k = Some u \<Longrightarrow> k = py_lower (nick (objs s u))"
    using assms by (auto simp add: registry_ok_iff)
  show ?thesis
    using assms own
    by (auto simp add: registry_ok_iff client_finally_fields delete_conv' distinct_delete
          split: if_splits)
qed

lemma registry_ok_step: "registry_ok s \<Longrightarrow> registry_ok (step s e)"
  by (cases e)
     (auto simp add: registry_ok_connect registry_ok_finally registry_ok_line split: sum.splits)

lemma registry_ok_run: "registry_ok s \<Longrightarrow> registry_ok (run s es)"
  by (induction es arbitrary: s) (simp_all add: run_simps registry_ok_step)

lemma registry_ok_reachable: "registry_ok (run (init B) es)"
  by (simp add: registry_ok_run registry_ok_init)

lemma registry_ok_no_empty_key: "registry_ok s \<Longrightarrow> \<not> in_users [] s"
  by (auto simp add: registry_ok_iff in_users_def; blast)

text \<open>
  Claim C1 says that the entries of the registry are the connected sessions, and that a
  session whose key is taken is not registered in place of the holder. \<open>handle_client\<close>
  stores every new User under "guest" without looking: when two clients have connected and
  neither has renamed itself, the registry has one entry, the second client, while both
  handlers run; the first client is called "Guest" and has no entry.
\<close>

theorem second_connect_replaces_first:
  "users (run (init {}) [Connect, Connect]) = [(lit ''guest'', 1)] \<and>
   sessions (run (init {}) [Connect, Connect]) = [0, 1] \<and>
   nick (objs (run (init {}) [Connect, Connect]) 0) = lit ''Guest''"
  by (simp add: run_simps client_connect_fields init_def)

text \<open>The other path into the registry does look: a \<open>/nick\<close> whose key is in the registry
  and is not the lowercase nick of the sender is refused, and changes nothing but the
  sender's output.\<close>

lemma command_nick_in_use:
  assumes "py_split args = tok # rest"
    and "\<not> nick_refused (take 24 tok)"
    and "in_users (py_lower (take 24 tok)) s"
    and "py_lower (take 24 tok) \<noteq> py_lower (nick (objs s u))"
  shows "command_nick u args s =
     Inr (s\<lparr>out := out s @
            (if u \<in> broken s then [] else [(u, lit '':Nickname already in use'' @ crlf)])\<rparr>)"
proof -
  have "args \<noteq> []" using assms(1) by (auto simp: py_split_Nil)
  then show ?thesis
    using assms by (simp add: command_nick_def Let_def send_msg_eq lit_def)
qed

lemma parse_nick_guest: "parse_command (lit ''/nick guest'') = Inr (lit ''nick'', lit ''guest'')"
  by (simp add: parse_defs)

lemma split_guest: "py_split (lit ''guest'') = [lit ''guest'']"
  by (simp add: py_split_def py_isspace_def lit_def)

text \<open>
  Claim C2 says that a \<open>/nick\<close> naming a key that another session holds fails and leaves
  both sessions as they were. The test of the source compares the new key with the
  sender's own lowercase nick, not the holder with the sender: after two connects the key
  "guest" is held by the second client, the first one is still called "Guest", and its
  \<open>/nick guest\<close> passes the test, removes the second client's entry and registers the first
  client under "guest". The second client stays connected without an entry.
\<close>

theorem unregistered_guest_takes_over_key:
  "map_of (users (run (init {}) [Connect, Connect])) (lit ''guest'') = Some 1 \<and>
   users (run (init {}) [Connect, Connect, Recv 0 clk (lit ''/nick guest'')]) = [(lit ''guest'', 0)] \<and>
   nick (objs (run (init {}) [Connect, Connect, Recv 0 clk (lit ''/nick guest'')]) 0) = lit ''guest'' \<and>
   sessions (run (init {}) [Connect, Connect, Recv 0 clk (lit ''/nick guest'')]) = [0, 1]"
proof -
  define s2 where "s2 = client_connect (client_connect (init {}))"
  have f2: "users s2 = [(lit ''guest'', 1)]" "nick (objs s2 0) = lit ''Guest''"
    "sessions s2 = [0, 1]"
    by (simp_all add: s2_def client_connect_fields init_def)
  have tk: "take 24 (lit ''guest'') = lit ''guest''" by (simp add: lit_def)
  have lw: "py_lower (lit ''guest'') = lit ''guest''"
    by (simp add: lit_def py_lower_def lower_char_def)
  have ok: "\<not> nick_refused (take 24 (lit ''guest''))"
    unfolding tk by (simp add: nick_refused_def py_isalnum_def is_alnum_def is_digit_def lit_def)
  have free: "\<not> (in_users (py_lower (take 24 (lit ''guest''))) s2 \<and>
     py_lower (take 24 (lit ''guest'')) \<noteq> py_lower (nick (objs s2 0)))"
    by (simp add: tk lw f2 guest_lower)
  have line: "py_strip (lit ''/nick guest'') = lit ''/nick guest''"
    by (simp add: py_strip_def py_isspace_def lit_def)
  have ne: "lit ''/nick guest'' \<noteq> []" by (simp add: lit_def)
  have sl: "startswith_slash (lit ''/nick guest'')" by (simp add: startswith_slash_def lit_def)
  have mem: "0 \<in> set (sessions s2)" by (simp add: f2)
  have "client_line clk 0 (lit ''/nick guest'') s2 = command_nick 0 (lit ''guest'') s2"
    by (simp only: client_line_command [OF line ne sl] handle_command_nick [OF parse_nick_guest])
  also note command_nick_accepts [OF split_guest ok free]
  finally have "run (init {}) [Connect, Connect, Recv 0 clk (lit ''/nick guest'')] =
     send_msg 0 (lit ''You are now '' @ take 24 (lit ''guest''))
           (broadcast (lit ''* '' @ nick (objs s2 0) @ lit '' is now known as '' @ take 24 (lit ''guest'')) None
             (s2\<lparr>objs := (objs s2)(0 := (objs s2 0)\<lparr>nick := take 24 (lit ''guest'')\<rparr>),
                users := AList.update (py_lower (take 24 (lit ''guest''))) 0
                           (AList.delete (py_lower (nick (objs s2 0))) (users s2))\<rparr>))"
    using mem by (simp add: run_simps flip: s2_def)
  moreover have "run (init {}) [Connect, Connect] = s2"
    by (simp add: run_simps s2_def)
  ultimately show ?thesis
    by (simp add: send_msg_eq broadcast_eq f2 tk lw guest_lower)
qed

end
